theory Spec2Isabelle
  imports Main "HOL-Library.Word"
begin

section \<open>A bucket presented as a read-only file system\<close>

text \<open>
  The package wraps a flat, key-addressed bucket (gocloud's \<open>*blob.Bucket\<close>) as an
  \<open>fs.FS\<close>. The embedding below follows the revision of the package that has
  \<open>blobFS.exists\<close>, \<open>blobFile.Seek\<close> and \<open>blobFile.ReadDir\<close>.

  The bucket is an external collaborator: it is a record of the answers its methods
  give. A Go method that returns a value and an \<open>error\<close> is a pair whose second
  component is \<open>None\<close> for a nil error, so every combination that the Go code tests
  (\<open>fileExists\<close> together with \<open>err != nil\<close>, for one) is a branch of the model.
  Every call to the bucket is appended to a log that the functions thread through,
  which is how "without a round trip" is stated.
\<close>

subsection \<open>Errors, attributes and the bucket\<close>

type_synonym byte = "8 word"
type_synonym int64 = "64 word"

text \<open>\<open>time.Time\<close>, as an offset from the zero time; the zero value is \<open>0\<close>.\<close>
type_synonym time = int

text \<open>
  \<open>ErrNotExist\<close> is \<open>fs.ErrNotExist\<close>, \<open>EOF\<close> is \<open>io.EOF\<close>, \<open>InvalidWhence\<close> is
  \<open>errors.New("invalid whence")\<close>, \<open>StoreFault\<close> is any error of the bucket and
  \<open>PathError op path err\<close> is \<open>&fs.PathError{Op, Path, Err}\<close>.
\<close>
datatype error =
    ErrNotExist
  | EOF
  | InvalidWhence
  | StoreFault string
  | PathError string string error

text \<open>\<open>blob.Attributes\<close>: the two fields the package reads.\<close>
record Attributes =
  attr_Size :: int64
  attr_ModTime :: time

text \<open>\<open>&blob.Attributes{}\<close>\<close>
definition zero_Attributes :: Attributes where
  "zero_Attributes = \<lparr>attr_Size = 0, attr_ModTime = 0\<rparr>"

text \<open>
  \<open>*blob.ListIterator\<close>: what the remaining calls of \<open>Next\<close> return, a key
  (\<open>Inr\<close>) or an error (\<open>Inl\<close>); after the last element \<open>Next\<close> returns \<open>io.EOF\<close>.
\<close>
type_synonym ListIterator = "(error + string) list"

text \<open>
  The bucket's methods. \<open>ListPage B prefix pageSize\<close> is
  \<open>ListPage(ctx, blob.FirstPageToken, pageSize, &blob.ListOptions{Prefix, Delimiter: "/"})\<close>
  without the next-page token, which the package drops; \<open>ListObjects B prefix\<close> is
  \<open>List(&blob.ListOptions{Prefix, Delimiter: "/"})\<close>.
\<close>
record bucket =
  Exists :: "string \<Rightarrow> bool \<times> error option"
  GetAttributes :: "string \<Rightarrow> Attributes option \<times> error option"
  ReadAll :: "string \<Rightarrow> byte list option \<times> error option"
  ListPage :: "string \<Rightarrow> nat \<Rightarrow> string list \<times> error option"
  ListObjects :: "string \<Rightarrow> ListIterator"

text \<open>The calls to the bucket, as they are logged.\<close>
datatype call =
    CExists string
  | CAttributes string
  | CReadAll string
  | CListPage string nat
  | CNext

subsection \<open>The file system and its handles\<close>

record blobFS =
  version :: string
  bucket :: bucket
  prefix :: string

text \<open>
  \<open>blobFile\<close>: a nil pointer or nil slice is \<open>None\<close>. The field \<open>fs\<close> is a pointer to
  a \<open>blobFS\<close> that is never written after \<open>New\<close>, so it is held by value.
\<close>
record blobFile =
  fs :: blobFS
  name :: string
  attrs :: "Attributes option"
  isDir :: bool
  contents :: "byte list option"
  offset :: int64
  iter :: "ListIterator option"

text \<open>\<open>&blobFile{fs: b, name: name}\<close>: every other field has its zero value.\<close>
definition new_blobFile :: "blobFS \<Rightarrow> string \<Rightarrow> blobFile" where
  "new_blobFile b nm =
     \<lparr>fs = b, name = nm, attrs = None, isDir = False, contents = None, offset = 0,
      iter = None\<rparr>"

subsection \<open>\<open>blobFS.exists\<close> and \<open>blobFS.Open\<close>\<close>

definition exists :: "blobFS \<Rightarrow> string \<Rightarrow> call list \<Rightarrow> (bool \<times> error option) \<times> call list" where
  "exists b nm log =
     (let (fileExists, err) = Exists (bucket b) nm;
          log1 = log @ [CExists nm]
      in if fileExists then ((True, err), log1)
         else
           let (r, err) = ListPage (bucket b) nm 1;
               log2 = log1 @ [CListPage nm 1]
           in if err \<noteq> None then ((False, err), log2)
              else ((length r > 0, None), log2))"

definition Open :: "blobFS \<Rightarrow> string \<Rightarrow> call list \<Rightarrow> (error + blobFile) \<times> call list" where
  "Open b nm log =
     (if nm = ''.'' then (Inr (new_blobFile b ''''), log)
      else
        let ((ex, err), log1) = exists b nm log
        in if \<not> ex then (Inl (PathError ''open'' nm ErrNotExist), log1)
           else (case err of
                   Some e \<Rightarrow> (Inl (PathError ''open'' nm e), log1)
                 | None \<Rightarrow> (Inr (new_blobFile b nm), log1)))"

subsection \<open>Attributes: \<open>getAttrs\<close>, \<open>Stat\<close>, \<open>Size\<close>, \<open>ModTime\<close>\<close>

text \<open>
  The methods of \<open>*blobFile\<close> mutate the handle, so each returns the handle as it
  leaves it, next to its Go results. What \<open>log.Println\<close> prints is not modelled.
\<close>

definition getAttrs :: "blobFile \<Rightarrow> call list \<Rightarrow> (Attributes \<times> blobFile) \<times> call list" where
  "getAttrs b log =
     (case attrs b of
        Some a \<Rightarrow> ((a, b), log)
      | None \<Rightarrow>
          let (ex, err) = Exists (bucket (fs b)) (name b);
              log1 = log @ [CExists (name b)];
              (b1, log2) =
                (if ex then
                   let (a, err) = GetAttributes (bucket (fs b)) (name b)
                   in (b\<lparr>attrs := a\<rparr>, log1 @ [CAttributes (name b)])
                 else (b, log1))
          in (case attrs b1 of
                None \<Rightarrow> ((zero_Attributes, b1), log2)
              | Some a \<Rightarrow> ((a, b1), log2)))"

text \<open>
  \<open>Stat\<close> returns the handle itself as the \<open>fs.FileInfo\<close>; the model returns the
  handle's state at the return (\<open>None\<close> for a nil \<open>FileInfo\<close>).
\<close>
definition Stat ::
  "blobFile \<Rightarrow> call list \<Rightarrow> ((blobFile option \<times> error option) \<times> blobFile) \<times> call list" where
  "Stat b log =
     (let (a, err) = GetAttributes (bucket (fs b)) (name b);
          b1 = b\<lparr>attrs := a\<rparr>;
          log1 = log @ [CAttributes (name b)]
      in if err \<noteq> None then
           let (r, err) = ListPage (bucket (fs b)) (name b) 1;
               log2 = log1 @ [CListPage (name b) 1]
           in if length r = 0
              then (((None, Some (PathError ''stat'' (name b) ErrNotExist)), b1), log2)
              else let b2 = b1\<lparr>isDir := True\<rparr> in (((Some b2, err), b2), log2)
         else (((Some b1, err), b1), log1))"

definition Size :: "blobFile \<Rightarrow> call list \<Rightarrow> (int64 \<times> blobFile) \<times> call list" where
  "Size b log = (let ((a, b1), log1) = getAttrs b log in ((attr_Size a, b1), log1))"

definition ModTime :: "blobFile \<Rightarrow> call list \<Rightarrow> (time \<times> blobFile) \<times> call list" where
  "ModTime b log = (let ((a, b1), log1) = getAttrs b log in ((attr_ModTime a, b1), log1))"

subsection \<open>\<open>IsDir\<close>\<close>

text \<open>
  Go's \<open>filepath.Ext\<close>: the suffix that starts at the last dot of the last element of
  the path, empty when that element has no dot. The scan runs from the end of the
  path and stops at a separator.
\<close>
fun ext_scan :: "string \<Rightarrow> string \<Rightarrow> string" where
  "ext_scan [] suf = []"
| "ext_scan (c # rest) suf =
     (if c = CHR ''/'' then []
      else if c = CHR ''.'' then c # suf
      else ext_scan rest (c # suf))"

definition Ext :: "string \<Rightarrow> string" where
  "Ext path = ext_scan (rev path) []"

definition IsDir :: "blobFile \<Rightarrow> call list \<Rightarrow> bool \<times> call list" where
  "IsDir b log =
     (if Ext (name b) \<noteq> [] then (False, log)
      else
        let nm = (if name b = ''.'' then ''/'' else name b)
        in if isDir b then (True, log)
           else
             let (fileExists, err) = Exists (bucket (fs b)) nm;
                 log1 = log @ [CExists nm]
             in if fileExists then (False, log1)
                else
                  let (r, err) = ListPage (bucket (fs b)) nm 1
                  in (length r > 0, log1 @ [CListPage nm 1]))"

subsection \<open>\<open>Read\<close> and \<open>Seek\<close>\<close>

text \<open>
  \<open>Read\<close> either returns the count, the error and the destination buffer as \<open>copy\<close>
  leaves it, or panics: the slice expression \<open>b.contents[b.offset:]\<close> is out of range
  when the offset is negative or greater than the length of the contents.
\<close>
datatype read_result =
    ReadReturns nat "error option" "byte list option"
  | ReadPanics

text \<open>
  The tail of \<open>Read\<close>, from the \<open>copy\<close> on: it runs on the handle as the fetch
  leaves it.
\<close>
definition Read_copy ::
  "blobFile \<Rightarrow> byte list \<Rightarrow> call list \<Rightarrow> (read_result \<times> blobFile) \<times> call list" where
  "Read_copy b bs log =
     (let cs = (case contents b of None \<Rightarrow> [] | Some cs \<Rightarrow> cs);
          off = sint (offset b)
      in if off < 0 \<or> int (length cs) < off then ((ReadPanics, b), log)
         else
           let src = drop (nat off) cs;
               n = min (length bs) (length src);
               b1 = b\<lparr>offset := offset b + of_nat n\<rparr>
           in if n = 0 then ((ReadReturns 0 (Some EOF) (Some bs), b1), log)
              else ((ReadReturns n None (Some (take n src @ drop n bs)), b1), log))"

definition Read ::
  "blobFile \<Rightarrow> byte list option \<Rightarrow> call list \<Rightarrow> (read_result \<times> blobFile) \<times> call list" where
  "Read b buf log =
     (case buf of
        None \<Rightarrow> ((ReadReturns 0 None None, b), log)
      | Some bs \<Rightarrow>
          if contents b = None then
            let (c, err) = ReadAll (bucket (fs b)) (name b);
                b1 = b\<lparr>contents := c\<rparr>;
                log1 = log @ [CReadAll (name b)]
            in if err \<noteq> None then ((ReadReturns 0 err (Some bs), b1), log1)
               else Read_copy b1 bs log1
          else Read_copy b bs log)"

text \<open>\<open>io.SeekStart\<close>, \<open>io.SeekCurrent\<close> and \<open>io.SeekEnd\<close>.\<close>
definition SeekStart :: int where "SeekStart = 0"
definition SeekCurrent :: int where "SeekCurrent = 1"
definition SeekEnd :: int where "SeekEnd = 2"

text \<open>The offset is an \<open>int64\<close>: the additions wrap around.\<close>
definition Seek ::
  "blobFile \<Rightarrow> int64 \<Rightarrow> int \<Rightarrow> call list \<Rightarrow> ((int64 \<times> error option) \<times> blobFile) \<times> call list" where
  "Seek b off whence log =
     (if whence = SeekStart then
        let b1 = b\<lparr>offset := off\<rparr> in (((offset b1, None), b1), log)
      else if whence = SeekCurrent then
        let b1 = b\<lparr>offset := offset b + off\<rparr> in (((offset b1, None), b1), log)
      else if whence = SeekEnd then
        let ((sz, b1), log1) = Size b log;
            b2 = b1\<lparr>offset := sz + off\<rparr>
        in (((offset b2, None), b2), log1)
      else (((0, Some InvalidWhence), b), log))"

subsection \<open>\<open>ReadDir\<close>\<close>

text \<open>Go's \<open>strings.HasSuffix\<close>, \<open>strings.HasPrefix\<close> and \<open>strings.TrimPrefix\<close>.\<close>
definition HasSuffix :: "string \<Rightarrow> string \<Rightarrow> bool" where
  "HasSuffix s suf \<longleftrightarrow>
     length suf \<le> length s \<and> drop (length s - length suf) s = suf"

definition HasPrefix :: "string \<Rightarrow> string \<Rightarrow> bool" where
  "HasPrefix s p \<longleftrightarrow> take (length p) s = p"

definition TrimPrefix :: "string \<Rightarrow> string \<Rightarrow> string" where
  "TrimPrefix s p = (if HasPrefix s p then drop (length p) s else s)"

text \<open>
  The loop of \<open>ReadDir\<close>, by recursion on what the iterator still holds: one equation
  for each answer of \<open>Next\<close> (exhausted, an error, a key). It returns the entries, the
  error and the iterator as the loop leaves it.
\<close>
fun ReadDir_loop ::
  "blobFS \<Rightarrow> int \<Rightarrow> ListIterator \<Rightarrow> blobFile list \<Rightarrow> call list \<Rightarrow>
     ((blobFile list \<times> error option) \<times> ListIterator) \<times> call list" where
  "ReadDir_loop f n [] results log =
     (if n < 0 then (((results, None), []), log @ [CNext])
      else (((results, Some EOF), []), log @ [CNext]))"
| "ReadDir_loop f n (Inl e # it) results log =
     (if e = EOF \<and> n < 0 then (((results, None), it), log @ [CNext])
      else (((results, Some e), it), log @ [CNext]))"
| "ReadDir_loop f n (Inr key # it) results log =
     (let results1 = results @ [(new_blobFile f key)\<lparr>isDir := HasSuffix key ''/''\<rparr>]
      in if n > 0 \<and> int (length results1) \<ge> n
         then (((results1, None), it), log @ [CNext])
         else ReadDir_loop f n it results1 (log @ [CNext]))"

definition ReadDir ::
  "blobFile \<Rightarrow> int \<Rightarrow> call list \<Rightarrow> ((blobFile list \<times> error option) \<times> blobFile) \<times> call list" where
  "ReadDir b n log =
     (let nm = TrimPrefix (name b) ''.'';
          nm1 = (if nm \<noteq> [] \<and> \<not> HasSuffix nm ''/'' then nm @ ''/'' else nm);
          it = (case iter b of None \<Rightarrow> ListObjects (bucket (fs b)) nm1 | Some it \<Rightarrow> it);
          (((results, err), it1), log1) = ReadDir_loop (fs b) n it [] log
      in (((results, err), b\<lparr>iter := Some it1\<rparr>), log1))"

subsection \<open>Buckets used as concrete inputs\<close>

text \<open>
  An in-memory bucket without faults, after gocloud's \<open>memblob\<close>, from the list of its
  objects in key order. A listing with the delimiter \<open>/\<close> returns the keys that start
  with the prefix, where a key with a delimiter after the prefix is replaced by the
  directory entry: the key up to and including that delimiter.
\<close>
definition list_entry :: "string \<Rightarrow> string \<Rightarrow> string" where
  "list_entry p k =
     (let rest = drop (length p) k
      in if CHR ''/'' \<in> set rest then p @ takeWhile (\<lambda>c. c \<noteq> CHR ''/'') rest @ ''/''
         else k)"

definition list_keys :: "string list \<Rightarrow> string \<Rightarrow> string list" where
  "list_keys ks p = remdups_adj (map (list_entry p) (filter (\<lambda>k. HasPrefix k p) ks))"

definition mem_bucket :: "(string \<times> byte list) list \<Rightarrow> bucket" where
  "mem_bucket objs =
     \<lparr>Exists = (\<lambda>k. (map_of objs k \<noteq> None, None)),
      GetAttributes =
        (\<lambda>k. case map_of objs k of
                None \<Rightarrow> (None, Some (StoreFault ''not found''))
              | Some c \<Rightarrow> (Some \<lparr>attr_Size = of_nat (length c), attr_ModTime = 1\<rparr>, None)),
      ReadAll =
        (\<lambda>k. case map_of objs k of
                None \<Rightarrow> (None, Some (StoreFault ''not found''))
              | Some c \<Rightarrow> (Some c, None)),
      ListPage = (\<lambda>p n. (take n (list_keys (map fst objs) p), None)),
      ListObjects = (\<lambda>p. map Inr (list_keys (map fst objs) p))\<rparr>"

text \<open>
  The bucket of the package's test case "ep, foo bar baz": the keys \<open>foo\<close>, \<open>bar\<close> and
  \<open>baz/bar\<close>, each holding the five bytes of \<open>hello\<close>.
\<close>
definition hello :: "byte list" where
  "hello = [104, 101, 108, 108, 111]"

definition test_bucket :: bucket where
  "test_bucket = mem_bucket [(''bar'', hello), (''baz/bar'', hello), (''foo'', hello)]"

definition test_fs :: blobFS where
  "test_fs = \<lparr>version = '''', bucket = test_bucket, prefix = ''''\<rparr>"

text \<open>A bucket that holds one object, under the key \<open>a//b\<close>.\<close>
definition odd_bucket :: bucket where
  "odd_bucket = mem_bucket [(''a//b'', hello)]"

definition odd_fs :: blobFS where
  "odd_fs = \<lparr>version = '''', bucket = odd_bucket, prefix = ''''\<rparr>"

text \<open>A bucket whose every call fails with a fault, answering with zero values.\<close>
definition faulty_bucket :: bucket where
  "faulty_bucket =
     \<lparr>Exists = (\<lambda>k. (False, Some (StoreFault ''deadline exceeded''))),
      GetAttributes = (\<lambda>k. (None, Some (StoreFault ''deadline exceeded''))),
      ReadAll = (\<lambda>k. (None, Some (StoreFault ''deadline exceeded''))),
      ListPage = (\<lambda>p n. ([], Some (StoreFault ''deadline exceeded''))),
      ListObjects = (\<lambda>p. [Inl (StoreFault ''deadline exceeded'')])\<rparr>"

definition faulty_fs :: blobFS where
  "faulty_fs = \<lparr>version = '''', bucket = faulty_bucket, prefix = ''''\<rparr>"

text \<open>The handle that \<open>Open\<close> returns for \<open>foo\<close>, and the same after its content was fetched.\<close>
definition foo_file :: blobFile where
  "foo_file = new_blobFile test_fs ''foo''"

definition foo_fetched :: blobFile where
  "foo_fetched = foo_file\<lparr>contents := Some hello\<rparr>"

definition foo_attrs :: Attributes where
  "foo_attrs = \<lparr>attr_Size = 5, attr_ModTime = 1\<rparr>"

text \<open>The root handle and the handle that \<open>Open\<close> returns for the directory \<open>baz\<close>.\<close>
definition root_file :: blobFile where
  "root_file = new_blobFile test_fs ''''"

definition baz_file :: blobFile where
  "baz_file = new_blobFile test_fs ''baz''"

subsection \<open>Invariants, and sequences of calls\<close>

text \<open>
  A bucket answers with the zero value when it reports an error: gocloud's \<open>Exists\<close>
  returns \<open>false\<close> together with any error, and \<open>ListPage\<close> returns no objects.
\<close>
definition zero_on_error :: "bucket \<Rightarrow> string \<Rightarrow> bool" where
  "zero_on_error B k \<longleftrightarrow>
     (snd (Exists B k) \<noteq> None \<longrightarrow> \<not> fst (Exists B k)) \<and>
     (snd (ListPage B k 1) \<noteq> None \<longrightarrow> fst (ListPage B k 1) = [])"

text \<open>
  The invariant of the content buffer: the content \<open>cs\<close> is fetched, and the offset
  lies between 0 and its length. A Go slice is shorter than \<open>2 ^ 63\<close>.
\<close>
definition offset_in_bounds :: "blobFile \<Rightarrow> byte list \<Rightarrow> bool" where
  "offset_in_bounds b cs \<longleftrightarrow>
     contents b = Some cs \<and> length cs < 2 ^ 63 \<and>
     0 \<le> sint (offset b) \<and> sint (offset b) \<le> int (length cs)"

text \<open>
  What a caller does with a handle: a sequence of method calls, each on the handle as
  the call before left it.
\<close>
datatype op =
    OpStat
  | OpSize
  | OpModTime
  | OpIsDir
  | OpRead "byte list option"
  | OpSeek int64 int
  | OpReadDir int

fun call_op :: "op \<Rightarrow> blobFile \<Rightarrow> call list \<Rightarrow> blobFile \<times> call list" where
  "call_op OpStat b log = (snd (fst (Stat b log)), snd (Stat b log))"
| "call_op OpSize b log = (snd (fst (Size b log)), snd (Size b log))"
| "call_op OpModTime b log = (snd (fst (ModTime b log)), snd (ModTime b log))"
| "call_op OpIsDir b log = (b, snd (IsDir b log))"
| "call_op (OpRead buf) b log = (snd (fst (Read b buf log)), snd (Read b buf log))"
| "call_op (OpSeek off whence) b log =
     (snd (fst (Seek b off whence log)), snd (Seek b off whence log))"
| "call_op (OpReadDir n) b log = (snd (fst (ReadDir b n log)), snd (ReadDir b n log))"

fun call_ops :: "op list \<Rightarrow> blobFile \<Rightarrow> call list \<Rightarrow> blobFile \<times> call list" where
  "call_ops [] b log = (b, log)"
| "call_ops (x # xs) b log = call_ops xs (fst (call_op x b log)) (snd (call_op x b log))"

fun is_Read :: "op \<Rightarrow> bool" where
  "is_Read (OpRead buf) = True"
| "is_Read x = False"

text \<open>The handle is bound to \<open>nm\<close> in \<open>f\<close> and has no attributes cached.\<close>
definition no_attrs :: "blobFile \<Rightarrow> blobFS \<Rightarrow> string \<Rightarrow> bool" where
  "no_attrs b f nm \<longleftrightarrow> fs b = f \<and> name b = nm \<and> attrs b = None"

section \<open>The answers of the concrete buckets\<close>

lemma test_bucket_eval:
  "Exists (bucket test_fs) ''foo'' = (True, None)"
  "Exists (bucket test_fs) ''baz'' = (False, None)"
  "Exists (bucket test_fs) ''qux'' = (False, None)"
  "Exists (bucket test_fs) ''../foo'' = (False, None)"
  "GetAttributes (bucket test_fs) ''foo'' = (Some foo_attrs, None)"
  "GetAttributes (bucket test_fs) ''baz'' = (None, Some (StoreFault ''not found''))"
  "ReadAll (bucket test_fs) ''foo'' = (Some hello, None)"
  "ListPage (bucket test_fs) ''baz'' (Suc 0) = ([''baz/''], None)"
  "ListPage (bucket test_fs) ''qux'' (Suc 0) = ([], None)"
  "ListPage (bucket test_fs) ''../foo'' (Suc 0) = ([], None)"
  "ListObjects (bucket test_fs) [] = [Inr ''bar'', Inr ''baz/'', Inr ''foo'']"
  by (simp_all add: test_fs_def test_bucket_def mem_bucket_def list_keys_def list_entry_def
        HasPrefix_def foo_attrs_def hello_def)

lemma odd_bucket_eval:
  "Exists (bucket odd_fs) ''a//b'' = (True, None)"
  by (simp add: odd_fs_def odd_bucket_def mem_bucket_def)

lemma faulty_bucket_eval:
  "Exists (bucket faulty_fs) k = (False, Some (StoreFault ''deadline exceeded''))"
  "ListPage (bucket faulty_fs) k n = ([], Some (StoreFault ''deadline exceeded''))"
  by (simp_all add: faulty_fs_def faulty_bucket_def)

lemmas test_defs =
  foo_file_def foo_fetched_def root_file_def baz_file_def new_blobFile_def test_bucket_eval

section \<open>Opening a path\<close>

text \<open>
  C1. For a path other than \<open>.\<close>, \<open>Open\<close> returns a handle exactly when the bucket
  answers that the exact key exists or the one-object, delimiter-bounded page listed
  with the path as prefix is not empty; the handle is bound to the path. When neither
  holds \<open>Open\<close> fails with \<open>fs.ErrNotExist\<close> in a \<open>PathError\<close> of operation \<open>open\<close>.
  \<open>Open(".")\<close> returns the root handle and leaves the log of bucket calls as it was.
  This holds for every bucket that answers with the zero value when it reports an
  error, so in particular for a bucket that reports no faults.
\<close>
theorem Open_succeeds_iff_key_or_prefix:
  assumes "zero_on_error (bucket b) nm"
  shows "(nm \<noteq> ''.'' \<longrightarrow>
            ((\<exists>h. fst (Open b nm log) = Inr h) \<longleftrightarrow>
               fst (Exists (bucket b) nm) \<or> fst (ListPage (bucket b) nm 1) \<noteq> []) \<and>
            (\<forall>h. fst (Open b nm log) = Inr h \<longrightarrow> h = new_blobFile b nm) \<and>
            (\<not> fst (Exists (bucket b) nm) \<and> fst (ListPage (bucket b) nm 1) = [] \<longrightarrow>
               fst (Open b nm log) = Inl (PathError ''open'' nm ErrNotExist))) \<and>
         Open b ''.'' log = (Inr (new_blobFile b ''''), log)"
  using assms
  by (auto simp: Open_def exists_def zero_on_error_def Let_def
           split: prod.splits option.splits if_splits)

theorem Open_succeeds_iff_key_or_prefix_witness:
  "zero_on_error (bucket test_fs) ''baz'' \<and>
   fst (Open test_fs ''baz'' []) = Inr (new_blobFile test_fs ''baz'') \<and>
   fst (Open test_fs ''qux'' []) = Inl (PathError ''open'' ''qux'' ErrNotExist) \<and>
   Open test_fs ''.'' [] = (Inr (new_blobFile test_fs ''''), [])"
  using Open_succeeds_iff_key_or_prefix [of test_fs "''baz''" "[]"]
  by (simp add: zero_on_error_def Open_def exists_def test_defs)

section \<open>Reading and seeking\<close>

lemma sint_add_nat:
  fixes w :: int64
  assumes "0 \<le> sint w" and "sint w + int n < 2 ^ 63"
  shows "sint (w + of_nat n) = sint w + int n"
proof -
  have "w + of_nat n = word_of_int (sint w + int n)"
    by simp
  then have "sint (w + of_nat n) = signed_take_bit 63 (sint w + int n)"
    by (simp only: sint_sbintrunc') simp
  also have "\<dots> = sint w + int n"
    using assms by (intro signed_take_bit_int_eq_self) auto
  finally show ?thesis .
qed

lemma Read_copy_in_bounds:
  assumes "offset_in_bounds b cs"
  shows "\<exists>n buf1.
           Read_copy b bs log =
             ((ReadReturns n (if n = 0 then Some EOF else None) buf1,
               b\<lparr>offset := offset b + of_nat n\<rparr>), log) \<and>
           n = min (length bs) (length cs - nat (sint (offset b))) \<and>
           offset_in_bounds (b\<lparr>offset := offset b + of_nat n\<rparr>) cs"
proof -
  let ?off = "sint (offset b)"
  let ?n = "min (length bs) (length cs - nat ?off)"
  from assms have c: "contents b = Some cs" and len: "length cs < 2 ^ 63"
    and lo: "0 \<le> ?off" and hi: "?off \<le> int (length cs)"
    by (simp_all add: offset_in_bounds_def)
  have sum: "?off + int ?n \<le> int (length cs)"
    using lo hi by linarith
  moreover have "int (length cs) < 2 ^ 63"
    using len by (metis of_nat_less_iff of_nat_numeral of_nat_power)
  ultimately have "sint (offset b + of_nat ?n) = ?off + int ?n"
    using lo by (intro sint_add_nat) simp_all
  with sum lo c len
  have "offset_in_bounds (b\<lparr>offset := offset b + of_nat ?n\<rparr>) cs"
    by (simp add: offset_in_bounds_def)
  moreover have "Read_copy b bs log =
      ((ReadReturns ?n (if ?n = 0 then Some EOF else None)
          (Some (take ?n (drop (nat ?off) cs) @ drop ?n bs)),
        b\<lparr>offset := offset b + of_nat ?n\<rparr>), log)"
    using c lo hi by (auto simp: Read_copy_def Let_def min_def split: if_splits)
  ultimately show ?thesis by blast
qed

lemma Read_copy_at_end:
  assumes "contents b = Some cs" and "sint (offset b) = int (length cs)"
  shows "Read_copy b bs log = ((ReadReturns 0 (Some EOF) (Some bs), b), log)"
  using assms by (simp add: Read_copy_def Let_def)

lemma getAttrs_frame:
  "contents (snd (fst (getAttrs b log))) = contents b \<and>
   offset (snd (fst (getAttrs b log))) = offset b \<and>
   name (snd (fst (getAttrs b log))) = name b \<and>
   fs (snd (fst (getAttrs b log))) = fs b"
  by (auto simp: getAttrs_def Let_def split: option.splits prod.splits)

lemma Seek_contents:
  "contents (snd (fst (Seek b v whence log))) = contents b"
  using getAttrs_frame [of b log]
  by (simp add: Seek_def Size_def Let_def case_prod_beta)

lemma Seek_offset:
  "offset (snd (fst (Seek b v whence log))) =
     (if whence = SeekStart then v
      else if whence = SeekCurrent then offset b + v
      else if whence = SeekEnd then fst (fst (Size b log)) + v
      else offset b)"
  by (simp add: Seek_def Let_def case_prod_beta)

lemma Read_in_bounds:
  assumes "offset_in_bounds b cs"
  shows "offset_in_bounds (snd (fst (Read b buf log))) cs"
proof (cases buf)
  case None
  with assms show ?thesis by (simp add: Read_def)
next
  case (Some bs)
  from assms have "contents b = Some cs"
    by (simp add: offset_in_bounds_def)
  then have "Read b (Some bs) log = Read_copy b bs log"
    by (simp add: Read_def)
  with Read_copy_in_bounds [OF assms, of bs log] Some show ?thesis
    by auto
qed

lemma Reads_in_bounds:
  "list_all is_Read xs \<Longrightarrow> offset_in_bounds b cs \<Longrightarrow>
   offset_in_bounds (fst (call_ops xs b log)) cs"
proof (induction xs arbitrary: b log)
  case Nil
  then show ?case by simp
next
  case (Cons x xs)
  from Cons.prems(1) obtain buf where x: "x = OpRead buf" and xs: "list_all is_Read xs"
    by (cases x) simp_all
  from Read_in_bounds [OF Cons.prems(2), of buf log] x
  have "offset_in_bounds (fst (call_op x b log)) cs" by simp
  from Cons.IH [OF xs this, of "snd (call_op x b log)"] show ?case
    by simp
qed

text \<open>
  The first \<open>Read\<close> on a handle as \<open>Open\<close> or \<open>ReadDir\<close> creates it fetches the
  content and leaves the offset within it.
\<close>
lemma first_Read_in_bounds:
  assumes "contents b = None" and "offset b = 0"
    and "ReadAll (bucket (fs b)) (name b) = (Some cs, None)" and "length cs < 2 ^ 63"
  shows "offset_in_bounds (snd (fst (Read b (Some bs) log))) cs \<and>
         snd (Read b (Some bs) log) = log @ [CReadAll (name b)]"
proof -
  let ?b1 = "b\<lparr>contents := Some cs\<rparr>"
  have r: "Read b (Some bs) log = Read_copy ?b1 bs (log @ [CReadAll (name b)])"
    using assms(1,3) by (simp add: Read_def)
  have "offset_in_bounds ?b1 cs"
    using assms(2,4) by (simp add: offset_in_bounds_def)
  from Read_copy_in_bounds [OF this, of bs "log @ [CReadAll (name b)]"] show ?thesis
    unfolding r by auto
qed

text \<open>
  While the offset is within the fetched content, \<open>Read\<close> is safe: it returns
  without a panic and with no error but the end-of-stream sentinel, makes no call to
  the bucket and keeps the offset within the content, and so does every sequence of
  \<open>Read\<close> calls; at \<open>offset = len(content)\<close> it returns zero bytes and the sentinel.
  \<open>Seek\<close> stores the recomputed offset as it is.
\<close>
lemma offset_in_bounds_kept:
  assumes "offset_in_bounds b cs"
  shows "(\<exists>n buf1.
            Read b (Some bs) log =
              ((ReadReturns n (if n = 0 then Some EOF else None) buf1,
                b\<lparr>offset := offset b + of_nat n\<rparr>), log) \<and>
            offset_in_bounds (b\<lparr>offset := offset b + of_nat n\<rparr>) cs) \<and>
         Read b None log = ((ReadReturns 0 None None, b), log) \<and>
         (sint (offset b) = int (length cs) \<longrightarrow>
            Read b (Some bs) log = ((ReadReturns 0 (Some EOF) (Some bs), b), log)) \<and>
         (list_all is_Read xs \<longrightarrow> offset_in_bounds (fst (call_ops xs b log)) cs) \<and>
         (offset_in_bounds (snd (fst (Seek b v whence log))) cs \<longleftrightarrow>
            0 \<le> sint (offset (snd (fst (Seek b v whence log)))) \<and>
            sint (offset (snd (fst (Seek b v whence log)))) \<le> int (length cs)) \<and>
         offset (snd (fst (Seek b v SeekStart log))) = v \<and>
         offset (snd (fst (Seek b v SeekCurrent log))) = offset b + v \<and>
         offset (snd (fst (Seek b v SeekEnd log))) = fst (fst (Size b log)) + v"
proof -
  from assms have c: "contents b = Some cs" and len: "length cs < 2 ^ 63"
    by (simp_all add: offset_in_bounds_def)
  have r: "Read b (Some bs) log = Read_copy b bs log"
    using c by (simp add: Read_def)
  have "\<exists>n buf1.
          Read b (Some bs) log =
            ((ReadReturns n (if n = 0 then Some EOF else None) buf1,
              b\<lparr>offset := offset b + of_nat n\<rparr>), log) \<and>
          offset_in_bounds (b\<lparr>offset := offset b + of_nat n\<rparr>) cs"
    using Read_copy_in_bounds [OF assms, of bs log] unfolding r by blast
  moreover have "Read b None log = ((ReadReturns 0 None None, b), log)"
    by (simp add: Read_def)
  moreover have "sint (offset b) = int (length cs) \<longrightarrow>
      Read b (Some bs) log = ((ReadReturns 0 (Some EOF) (Some bs), b), log)"
    unfolding r using c by (simp add: Read_copy_at_end)
  moreover have "list_all is_Read xs \<longrightarrow> offset_in_bounds (fst (call_ops xs b log)) cs"
    using Reads_in_bounds [OF _ assms] by blast
  moreover have "offset_in_bounds (snd (fst (Seek b v whence log))) cs \<longleftrightarrow>
      0 \<le> sint (offset (snd (fst (Seek b v whence log)))) \<and>
      sint (offset (snd (fst (Seek b v whence log)))) \<le> int (length cs)"
    using c len by (simp add: offset_in_bounds_def Seek_contents)
  moreover have "offset (snd (fst (Seek b v SeekStart log))) = v"
    by (simp add: Seek_offset)
  moreover have "offset (snd (fst (Seek b v SeekCurrent log))) = offset b + v"
    by (simp add: Seek_offset SeekStart_def SeekCurrent_def)
  moreover have "offset (snd (fst (Seek b v SeekEnd log))) = fst (fst (Size b log)) + v"
    by (simp add: Seek_offset SeekStart_def SeekCurrent_def SeekEnd_def)
  ultimately show ?thesis by blast
qed

text \<open>
  C2. The offset does not stay within \<open>0 \<le> offset \<le> len(content)\<close>, and a \<open>Read\<close>
  beyond the end panics. On the file \<open>foo\<close> of the test bucket, five bytes long: the
  first \<open>Read\<close> fetches the content and returns the five bytes, the next \<open>Read\<close>, at
  the end, returns zero bytes and \<open>io.EOF\<close>; then \<open>Seek(10, io.SeekStart)\<close> returns
  10 with a nil error and leaves the offset at 10, and the \<open>Read\<close> that follows
  panics in the slice expression \<open>b.contents[b.offset:]\<close>, where the end-of-stream
  sentinel was due.
\<close>
theorem Read_after_Seek_past_end_panics:
  "Open test_fs ''foo'' [] = (Inr foo_file, [CExists ''foo'']) \<and>
   Read foo_file (Some [0, 0, 0, 0, 0]) [] =
     ((ReadReturns 5 None (Some hello), foo_fetched\<lparr>offset := 5\<rparr>), [CReadAll ''foo'']) \<and>
   Read (foo_fetched\<lparr>offset := 5\<rparr>) (Some [0]) [] =
     ((ReadReturns 0 (Some EOF) (Some [0]), foo_fetched\<lparr>offset := 5\<rparr>), []) \<and>
   Seek (foo_fetched\<lparr>offset := 5\<rparr>) 10 SeekStart [] =
     (((10, None), foo_fetched\<lparr>offset := 10\<rparr>), []) \<and>
   int (length hello) < sint (offset (foo_fetched\<lparr>offset := 10\<rparr>)) \<and>
   Read (foo_fetched\<lparr>offset := 10\<rparr>) (Some [0]) [] =
     ((ReadPanics, foo_fetched\<lparr>offset := 10\<rparr>), [])"
  by (simp add: Open_def exists_def Seek_def Read_def Read_copy_def Let_def test_defs hello_def)

text \<open>
  C7, as amended. A \<open>Seek\<close> whose anchor is none of \<open>io.SeekStart\<close>,
  \<open>io.SeekCurrent\<close> and \<open>io.SeekEnd\<close> fails with the error \<open>invalid whence\<close>,
  returns 0 and leaves the handle and the log as they were. A \<open>Seek\<close> with one of the
  three anchors never fails: it stores the recomputed offset (the \<open>int64\<close> sum, with
  no test of its sign) and returns it with a nil error.
\<close>
theorem Seek_rejects_only_unknown_anchor:
  "(whence \<noteq> SeekStart \<and> whence \<noteq> SeekCurrent \<and> whence \<noteq> SeekEnd \<longrightarrow>
      Seek b off whence log = (((0, Some InvalidWhence), b), log)) \<and>
   Seek b off SeekStart log = (((off, None), b\<lparr>offset := off\<rparr>), log) \<and>
   Seek b off SeekCurrent log =
     (((offset b + off, None), b\<lparr>offset := offset b + off\<rparr>), log) \<and>
   fst (fst (Seek b off SeekEnd log)) = (fst (fst (Size b log)) + off, None) \<and>
   offset (snd (fst (Seek b off SeekEnd log))) = fst (fst (Size b log)) + off"
  by (simp add: Seek_def SeekStart_def SeekCurrent_def SeekEnd_def Let_def case_prod_beta)

theorem Seek_rejects_only_unknown_anchor_witness:
  "7 \<noteq> SeekStart \<and> 7 \<noteq> SeekCurrent \<and> 7 \<noteq> SeekEnd \<and>
   Seek foo_file 3 7 [] = (((0, Some InvalidWhence), foo_file), [])"
  using Seek_rejects_only_unknown_anchor [of 7 foo_file 3 "[]"]
  by (simp add: SeekStart_def SeekCurrent_def SeekEnd_def)

text \<open>
  The claim as stated fails: \<open>Seek(-1, io.SeekStart)\<close> and \<open>Seek(-6, io.SeekEnd)\<close> on
  the five-byte file \<open>foo\<close> return the negative offset \<open>-1\<close> with a nil error.
\<close>
theorem Seek_negative_counterexample:
  "Seek foo_file (- 1) SeekStart [] = (((- 1, None), foo_file\<lparr>offset := - 1\<rparr>), []) \<and>
   fst (fst (Seek foo_file (- 6) SeekEnd [])) = (- 1, None) \<and>
   sint (- 1 :: int64) < 0"
  by (simp add: Seek_def Size_def getAttrs_def SeekStart_def SeekCurrent_def SeekEnd_def
        Let_def test_defs foo_attrs_def)

section \<open>Attributes\<close>

lemma getAttrs_cached:
  "attrs b = Some a \<Longrightarrow> getAttrs b log = ((a, b), log)"
  by (simp add: getAttrs_def)

lemma getAttrs_no_object:
  "attrs b = None \<Longrightarrow> \<not> fst (Exists (bucket (fs b)) (name b)) \<Longrightarrow>
   getAttrs b log = ((zero_Attributes, b), log @ [CExists (name b)])"
  by (auto simp: getAttrs_def Let_def split: prod.splits)

lemma Stat_frame:
  "fs (snd (fst (Stat b log))) = fs b \<and> name (snd (fst (Stat b log))) = name b \<and>
   attrs (snd (fst (Stat b log))) = fst (GetAttributes (bucket (fs b)) (name b))"
  by (simp add: Stat_def Let_def case_prod_beta)

lemma Stat_queries:
  "\<exists>rest. snd (Stat b log) = log @ CAttributes (name b) # rest"
  by (simp add: Stat_def Let_def case_prod_beta)

lemma Read_copy_frame:
  "fs (snd (fst (Read_copy b bs log))) = fs b \<and>
   name (snd (fst (Read_copy b bs log))) = name b \<and>
   attrs (snd (fst (Read_copy b bs log))) = attrs b"
  by (simp add: Read_copy_def Let_def)

lemma Read_frame:
  "fs (snd (fst (Read b buf log))) = fs b \<and>
   name (snd (fst (Read b buf log))) = name b \<and>
   attrs (snd (fst (Read b buf log))) = attrs b"
  by (simp add: Read_def Read_copy_frame Let_def case_prod_beta split: option.splits)

lemma ReadDir_frame:
  "fs (snd (fst (ReadDir b n log))) = fs b \<and>
   name (snd (fst (ReadDir b n log))) = name b \<and>
   attrs (snd (fst (ReadDir b n log))) = attrs b"
  by (simp add: ReadDir_def Let_def case_prod_beta)

lemma Seek_no_object:
  assumes "attrs b = None" and "\<not> fst (Exists (bucket (fs b)) (name b))"
  shows "fs (snd (fst (Seek b off whence log))) = fs b \<and>
         name (snd (fst (Seek b off whence log))) = name b \<and>
         attrs (snd (fst (Seek b off whence log))) = None"
  using assms by (simp add: Seek_def Size_def getAttrs_no_object Let_def)

lemma call_op_keeps_attrs:
  assumes "x \<noteq> OpStat" and "attrs b = Some a"
  shows "attrs (fst (call_op x b log)) = Some a \<and> name (fst (call_op x b log)) = name b"
proof (cases x)
  case OpStat
  with assms(1) show ?thesis by simp
next
  case OpSize
  then show ?thesis using assms(2) by (simp add: Size_def getAttrs_cached)
next
  case OpModTime
  then show ?thesis using assms(2) by (simp add: ModTime_def getAttrs_cached)
next
  case OpIsDir
  then show ?thesis using assms(2) by simp
next
  case (OpRead buf)
  then show ?thesis using assms(2) Read_frame [of b buf log] by simp
next
  case (OpSeek off whence)
  then show ?thesis using assms(2)
    by (simp add: Seek_def Size_def getAttrs_cached Let_def)
next
  case (OpReadDir n)
  then show ?thesis using assms(2) ReadDir_frame [of b n log] by simp
qed

lemma call_ops_keeps_attrs:
  "OpStat \<notin> set xs \<Longrightarrow> attrs b = Some a \<Longrightarrow>
   attrs (fst (call_ops xs b log)) = Some a \<and> name (fst (call_ops xs b log)) = name b"
proof (induction xs arbitrary: b log)
  case Nil
  then show ?case by simp
next
  case (Cons x xs)
  from Cons.prems have x: "x \<noteq> OpStat" and xs: "OpStat \<notin> set xs"
    by auto
  from call_op_keeps_attrs [OF x Cons.prems(2), of log]
  have a: "attrs (fst (call_op x b log)) = Some a"
    and n: "name (fst (call_op x b log)) = name b"
    by simp_all
  from Cons.IH [OF xs a, of "snd (call_op x b log)"] n show ?case
    by simp
qed

text \<open>
  C5, as amended. Once a \<open>Stat\<close> has fetched the attributes of a file, and through
  any later calls on the handle other than \<open>Stat\<close>, \<open>Size\<close> and \<open>ModTime\<close> return
  the cached fields, make no call to the bucket and leave the handle as it is.
  \<open>Stat\<close> itself does not read the cache: every \<open>Stat\<close> starts with an attribute
  query to the bucket.
\<close>
theorem Size_ModTime_use_cache_after_Stat:
  assumes "Stat b log = (((info, None), b1), log1)" and "attrs b1 = Some a"
    and "OpStat \<notin> set xs" and "call_ops xs b1 log1 = (b2, log2)"
  shows "Size b2 l = ((attr_Size a, b2), l) \<and>
         ModTime b2 l = ((attr_ModTime a, b2), l) \<and>
         (\<exists>rest. snd (Stat b2 l) = l @ CAttributes (name b) # rest)"
proof -
  have "name b1 = name b"
    using Stat_frame [of b log] assms(1) by simp
  moreover from call_ops_keeps_attrs [OF assms(3,2), of log1] assms(4)
  have "attrs b2 = Some a" and "name b2 = name b1"
    by simp_all
  ultimately show ?thesis
    using Stat_queries [of b2 l]
    by (simp add: Size_def ModTime_def getAttrs_cached)
qed

theorem Size_ModTime_use_cache_after_Stat_witness:
  "Stat foo_file [] =
     (((Some (foo_file\<lparr>attrs := Some foo_attrs\<rparr>), None), foo_file\<lparr>attrs := Some foo_attrs\<rparr>),
      [CAttributes ''foo'']) \<and>
   call_ops [OpSeek 0 SeekEnd, OpRead (Some [0, 0])] (foo_file\<lparr>attrs := Some foo_attrs\<rparr>)
       [CAttributes ''foo''] =
     (foo_file\<lparr>attrs := Some foo_attrs, contents := Some hello, offset := 5\<rparr>,
      [CAttributes ''foo'', CReadAll ''foo'']) \<and>
   Size (foo_file\<lparr>attrs := Some foo_attrs, contents := Some hello, offset := 5\<rparr>) [] =
     ((5, foo_file\<lparr>attrs := Some foo_attrs, contents := Some hello, offset := 5\<rparr>), []) \<and>
   ModTime (foo_file\<lparr>attrs := Some foo_attrs, contents := Some hello, offset := 5\<rparr>) [] =
     ((1, foo_file\<lparr>attrs := Some foo_attrs, contents := Some hello, offset := 5\<rparr>), [])"
proof -
  let ?b1 = "foo_file\<lparr>attrs := Some foo_attrs\<rparr>"
  let ?b2 = "foo_file\<lparr>attrs := Some foo_attrs, contents := Some hello, offset := 5\<rparr>"
  have s: "Stat foo_file [] = (((Some ?b1, None), ?b1), [CAttributes ''foo''])"
    by (simp add: Stat_def Let_def test_defs)
  have a: "attrs ?b1 = Some foo_attrs" by simp
  have x: "OpStat \<notin> set [OpSeek 0 SeekEnd, OpRead (Some [0, 0])]" by simp
  have c: "call_ops [OpSeek 0 SeekEnd, OpRead (Some [0, 0])] ?b1 [CAttributes ''foo''] =
      (?b2, [CAttributes ''foo'', CReadAll ''foo''])"
    by (simp add: Seek_def Size_def getAttrs_def Read_def Read_copy_def Let_def
          SeekStart_def SeekCurrent_def SeekEnd_def test_defs foo_attrs_def hello_def)
  from Size_ModTime_use_cache_after_Stat [OF s a x c, of "[]"] s c show ?thesis
    by (simp add: foo_attrs_def)
qed

text \<open>
  The claim as stated fails: a second \<open>Stat\<close> on the handle of \<open>foo\<close>, after the
  first has fetched its attributes, queries the attributes again.
\<close>
theorem Stat_twice_counterexample:
  "Stat foo_file [] =
     (((Some (foo_file\<lparr>attrs := Some foo_attrs\<rparr>), None), foo_file\<lparr>attrs := Some foo_attrs\<rparr>),
      [CAttributes ''foo'']) \<and>
   snd (Stat (foo_file\<lparr>attrs := Some foo_attrs\<rparr>) [CAttributes ''foo'']) =
     [CAttributes ''foo'', CAttributes ''foo'']"
  by (simp add: Stat_def Let_def test_defs)

lemma call_op_no_attrs:
  assumes "\<not> fst (Exists (bucket f) nm)" and "fst (GetAttributes (bucket f) nm) = None"
    and "no_attrs b f nm"
  shows "no_attrs (fst (call_op x b log)) f nm"
proof (cases x)
  case OpStat
  then show ?thesis using assms Stat_frame [of b log]
    by (simp add: no_attrs_def)
next
  case OpSize
  then show ?thesis using assms
    by (simp add: no_attrs_def Size_def getAttrs_no_object)
next
  case OpModTime
  then show ?thesis using assms
    by (simp add: no_attrs_def ModTime_def getAttrs_no_object)
next
  case OpIsDir
  then show ?thesis using assms by simp
next
  case (OpRead buf)
  then show ?thesis using assms Read_frame [of b buf log]
    by (simp add: no_attrs_def)
next
  case (OpSeek off whence)
  then show ?thesis using assms Seek_no_object [of b off whence log]
    by (simp add: no_attrs_def)
next
  case (OpReadDir n)
  then show ?thesis using assms ReadDir_frame [of b n log]
    by (simp add: no_attrs_def)
qed

lemma call_ops_no_attrs:
  assumes "\<not> fst (Exists (bucket f) nm)" and "fst (GetAttributes (bucket f) nm) = None"
  shows "no_attrs b f nm \<Longrightarrow> no_attrs (fst (call_ops xs b log)) f nm"
proof (induction xs arbitrary: b log)
  case Nil
  then show ?case by simp
next
  case (Cons x xs)
  from call_op_no_attrs [OF assms Cons.prems, of x log]
  have "no_attrs (fst (call_op x b log)) f nm" .
  from Cons.IH [OF this, of "snd (call_op x b log)"] show ?case
    by simp
qed

text \<open>
  C10. \<open>Size\<close> and \<open>ModTime\<close> return a plain value, with no error result. Take a
  handle whose key has no exact object in the bucket (\<open>Exists\<close> answers false and the
  attribute query returns no attributes), with no attributes cached, as every handle is
  when \<open>Open\<close> or \<open>ReadDir\<close> creates it. After any sequence of calls on it, \<open>Size\<close>
  returns 0 and \<open>ModTime\<close> the zero time, the handle is left as it was, still with
  nothing cached, and the call has asked the bucket whether the key exists: so has
  every such call.
\<close>
theorem Size_ModTime_without_object:
  assumes "\<not> fst (Exists (bucket (fs b)) (name b))"
    and "fst (GetAttributes (bucket (fs b)) (name b)) = None"
    and "attrs b = None"
    and "call_ops xs b log = (b1, log1)"
  shows "Size b1 l = ((0, b1), l @ [CExists (name b)]) \<and>
         ModTime b1 l = ((0, b1), l @ [CExists (name b)]) \<and>
         attrs b1 = None"
proof -
  have "no_attrs b (fs b) (name b)"
    using assms(3) by (simp add: no_attrs_def)
  from call_ops_no_attrs [OF assms(1,2) this, of xs log] assms(4)
  have "no_attrs b1 (fs b) (name b)" by simp
  with assms(1) show ?thesis
    by (simp add: no_attrs_def Size_def ModTime_def getAttrs_no_object zero_Attributes_def)
qed

theorem Size_ModTime_without_object_witness:
  "call_ops [OpStat, OpSize] baz_file [] =
     (baz_file\<lparr>isDir := True\<rparr>,
      [CAttributes ''baz'', CListPage ''baz'' 1, CExists ''baz'']) \<and>
   Size (baz_file\<lparr>isDir := True\<rparr>) [] = ((0, baz_file\<lparr>isDir := True\<rparr>), [CExists ''baz'']) \<and>
   ModTime (baz_file\<lparr>isDir := True\<rparr>) [] = ((0, baz_file\<lparr>isDir := True\<rparr>), [CExists ''baz''])"
proof -
  have e: "\<not> fst (Exists (bucket (fs baz_file)) (name baz_file))"
    by (simp add: test_defs)
  have g: "fst (GetAttributes (bucket (fs baz_file)) (name baz_file)) = None"
    by (simp add: test_defs)
  have a: "attrs baz_file = None"
    by (simp add: test_defs)
  have c: "call_ops [OpStat, OpSize] baz_file [] =
      (baz_file\<lparr>isDir := True\<rparr>, [CAttributes ''baz'', CListPage ''baz'' 1, CExists ''baz''])"
    by (simp add: Stat_def Size_def getAttrs_def Let_def test_defs)
  have n: "name baz_file = ''baz''"
    by (simp add: test_defs)
  from Size_ModTime_without_object [OF e g a c, of "[]"] c n show ?thesis
    by simp
qed

section \<open>The kind of an opened path\<close>




section \<open>Where the code departs from its contract\<close>

text \<open>
  C3. \<open>ReadDir(0)\<close> on the root of the test bucket returns the three entries
  together with \<open>io.EOF\<close>, where \<open>ReadDir(-1)\<close> returns them with a nil error: the
  loop tests \<open>n < 0\<close> when the iterator is exhausted, not \<open>n <= 0\<close>.
\<close>
theorem ReadDir_zero_returns_EOF:
  "fst (ReadDir root_file 0 []) =
     (([new_blobFile test_fs ''bar'',
        (new_blobFile test_fs ''baz/'')\<lparr>isDir := True\<rparr>,
        new_blobFile test_fs ''foo''], Some EOF),
      root_file\<lparr>iter := Some []\<rparr>) \<and>
   fst (ReadDir root_file (- 1) []) =
     (([new_blobFile test_fs ''bar'',
        (new_blobFile test_fs ''baz/'')\<lparr>isDir := True\<rparr>,
        new_blobFile test_fs ''foo''], None),
      root_file\<lparr>iter := Some []\<rparr>)"
  by (simp add: ReadDir_def TrimPrefix_def HasPrefix_def HasSuffix_def test_defs)

text \<open>
  C4. \<open>Open\<close> has no test of the path's validity: it opens \<open>a//b\<close>, a path with an
  empty segment, when the bucket holds that key, and for the path \<open>../foo\<close> it calls
  the bucket twice before it fails with \<open>fs.ErrNotExist\<close>.
\<close>
theorem Open_accepts_invalid_path:
  "Open odd_fs ''a//b'' [] = (Inr (new_blobFile odd_fs ''a//b''), [CExists ''a//b'']) \<and>
   Open test_fs ''../foo'' [] =
     (Inl (PathError ''open'' ''../foo'' ErrNotExist),
      [CExists ''../foo'', CListPage ''../foo'' 1])"
  by (simp add: Open_def exists_def odd_bucket_eval test_defs)

text \<open>
  C6. On a bucket whose calls fail with a fault, \<open>Open\<close> reports \<open>fs.ErrNotExist\<close>
  and drops the fault: \<open>exists\<close> returns false together with the error, and \<open>Open\<close>
  tests \<open>!exists\<close> before it tests the error.
\<close>
theorem Open_reports_fault_as_not_exist:
  "Open faulty_fs ''foo'' [] =
     (Inl (PathError ''open'' ''foo'' ErrNotExist), [CExists ''foo'', CListPage ''foo'' 1])"
  by (simp add: Open_def exists_def faulty_bucket_eval)

text \<open>
  C9. \<open>Read\<close> tests the buffer against nil only. With a nil buffer it returns zero
  bytes and a nil error and touches nothing; with an empty, non-nil buffer on the
  fresh handle of \<open>foo\<close> it fetches the content from the bucket and returns
  \<open>io.EOF\<close>, although all five bytes are still to be read.
\<close>
theorem Read_empty_buffer_returns_EOF:
  "Read foo_file (Some []) [] =
     ((ReadReturns 0 (Some EOF) (Some []), foo_fetched), [CReadAll ''foo'']) \<and>
   Read foo_file None [] = ((ReadReturns 0 None None, foo_file), [])"
  by (simp add: Read_def Read_copy_def Let_def test_defs)

end
